theory Spec2Isabelle
  imports Complex_Main "HOL-Library.Word"
begin

section \<open>The realtime voice session of \<^verbatim>\<open>src/App.tsx\<close>\<close>

text \<open>
  The component \<^verbatim>\<open>App\<close> keeps its session in React state cells and refs and reacts to
  events: the start/stop button, the channel callbacks \<^verbatim>\<open>onopen\<close>, \<^verbatim>\<open>onmessage\<close>,
  \<^verbatim>\<open>onerror\<close>, \<^verbatim>\<open>onclose\<close>, and the \<^verbatim>\<open>ended\<close> event of a playing audio source.
  The embedding below is a state record holding every cell and ref, and one function per
  handler that takes the state and returns the new state together with the list of calls
  the handler made on its collaborators (the effects), in the order they are made.

  Conventions of the embedding.
  \<^item> A JavaScript string is the list of its UTF-16 code units.
  \<^item> A JavaScript number holding a time in seconds is a \<open>real\<close>. The scheduler only
    applies \<^verbatim>\<open>Math.max\<close> and \<^verbatim>\<open>+\<close> to such numbers.
  \<^item> Every handler invocation runs to completion before the next one begins; the
    interleaving of two invocations at an \<^verbatim>\<open>await\<close> is not part of the model.
  \<^item> What a collaborator answers (the output clock, the audio decoder, the image
    service, the microphone, the channel) is an input of the handler.
\<close>

subsection \<open>Strings\<close>

type_synonym jsstring = "16 word list"

text \<open>A string literal made of ASCII characters only.\<close>

definition ascii :: "string \<Rightarrow> jsstring" where
  "ascii cs = map (\<lambda>c. of_nat (of_char c)) cs"

text \<open>
  \<^verbatim>\<open>String.prototype.trim\<close> removes the code units of ECMAScript's WhiteSpace and
  LineTerminator productions from both ends.
\<close>

definition is_white_space :: "16 word \<Rightarrow> bool" where
  "is_white_space c \<longleftrightarrow>
     c \<in> set [0x9, 0xA, 0xB, 0xC, 0xD, 0x20, 0xA0, 0x1680, 0x2028, 0x2029, 0x202F,
               0x205F, 0x3000, 0xFEFF]
     \<or> (0x2000 \<le> c \<and> c \<le> 0x200A)"

definition trim :: "jsstring \<Rightarrow> jsstring" where
  "trim s = rev (dropWhile is_white_space (rev (dropWhile is_white_space s)))"

text \<open>
  An optional string used where the source concatenates it to a string (\<^verbatim>\<open>+=\<close>, a
  template literal): the absent value \<^verbatim>\<open>undefined\<close> is converted to its name.
\<close>

definition to_string :: "jsstring option \<Rightarrow> jsstring" where
  "to_string v = (case v of Some s \<Rightarrow> s | None \<Rightarrow> ascii ''undefined'')"

text \<open>The string literals of the source that are not ASCII, as code units.\<close>

definition confirmation :: jsstring where
  "confirmation =
     [0x99B, 0x9AC, 0x9BF, 0x99F, 0x9BF, 0x20, 0x9A8, 0x9BF, 0x99A, 0x9C7, 0x20, 0x9A4,
      0x9C8, 0x9B0, 0x9BF, 0x20, 0x995, 0x9B0, 0x9BE, 0x20, 0x9B9, 0x9DF, 0x9C7, 0x99B,
      0x9C7, 0x964]"

definition session_error_message :: jsstring where
  "session_error_message =
     [0x997, 0x9B2, 0x9CD, 0x9AA, 0x9C7, 0x20, 0x98F, 0x995, 0x99F, 0x9C1, 0x20, 0x9AC,
      0x9BE, 0x9A7, 0x9BE, 0x20, 0x9AA, 0x9DC, 0x9B2, 0x9CB, 0x964, 0x20, 0x986, 0x9AE,
      0x9BF, 0x20, 0x986, 0x9AC, 0x9BE, 0x9B0, 0x20, 0x9B8, 0x982, 0x9AF, 0x9CB, 0x997,
      0x20, 0x995, 0x9B0, 0x9BE, 0x9B0, 0x20, 0x99A, 0x9C7, 0x9B7, 0x9CD, 0x99F, 0x9BE,
      0x20, 0x995, 0x9B0, 0x99B, 0x9BF, 0x2E, 0x2E, 0x2E]"

definition start_error_message :: jsstring where
  "start_error_message =
     [0x986, 0x9AE, 0x9BE, 0x9B0, 0x20, 0x995, 0x9BE, 0x99B, 0x9C7, 0x20, 0x9AA, 0x9CC,
      0x981, 0x99B, 0x9BE, 0x9A8, 0x9CB, 0x20, 0x9AF, 0x9BE, 0x99A, 0x9CD, 0x99B, 0x9C7,
      0x20, 0x9A8, 0x9BE, 0x964, 0x20, 0x9A6, 0x9DF, 0x9BE, 0x20, 0x995, 0x9B0, 0x9C7,
      0x20, 0x986, 0x9AA, 0x9A8, 0x9BE, 0x9B0, 0x20, 0x987, 0x9A8, 0x9CD, 0x99F, 0x9BE,
      0x9B0, 0x9A8, 0x9C7, 0x99F, 0x20, 0x99A, 0x9C7, 0x995, 0x20, 0x995, 0x9B0, 0x9C1,
      0x9A8, 0x964]"

subsection \<open>The state of the component\<close>

datatype role = User | Model

text \<open>An element of \<^verbatim>\<open>transcripts\<close>: \<^verbatim>\<open>{ type, text }\<close>.\<close>

record entry =
  entry_type :: role
  entry_text :: jsstring

text \<open>\<^verbatim>\<open>transcriptBufferRef.current\<close>: \<^verbatim>\<open>{ user, model }\<close>.\<close>

record transcript_buffer =
  user :: jsstring
  model :: jsstring

text \<open>
  An \<^verbatim>\<open>AudioBufferSourceNode\<close> that has been started: the time it was started at and
  the duration of its buffer.
\<close>

record source_node =
  start_time :: real
  duration :: real

text \<open>
  The collaborators' objects are named by numbers: an audio context, a channel session, a
  microphone track. A \<^verbatim>\<open>MediaStream\<close> is the list of its tracks.
\<close>

type_synonym audio_context = nat
type_synonym live_session = nat
type_synonym media_stream = "nat list"

text \<open>
  \<^verbatim>\<open>sourcesRef.current\<close> is a \<^verbatim>\<open>Set\<close> of source nodes. Every node added is a fresh
  object, so \<^verbatim>\<open>add\<close> always appends; the set is the list of its elements in insertion
  order, which is the order \<^verbatim>\<open>forEach\<close> visits them in.
\<close>

record app_state =
  isActive :: bool
  isConnecting :: bool
  transcripts :: "entry list"
  error :: "jsstring option"
  generatedImage :: "jsstring option"
  isGeneratingImage :: bool
  audioContextInRef :: "audio_context option"
  audioContextOutRef :: "audio_context option"
  nextStartTimeRef :: real
  sourcesRef :: "source_node list"
  sessionRef :: "live_session option"
  streamRef :: "media_stream option"
  transcriptBufferRef :: transcript_buffer

definition initial_state :: app_state where
  "initial_state =
     \<lparr>isActive = False, isConnecting = False, transcripts = [], error = None,
      generatedImage = None, isGeneratingImage = False,
      audioContextInRef = None, audioContextOutRef = None,
      nextStartTimeRef = 0, sourcesRef = [],
      sessionRef = None, streamRef = None,
      transcriptBufferRef = \<lparr>user = [], model = []\<rparr>\<rparr>"

subsection \<open>Effects\<close>

text \<open>The calls a handler makes on its collaborators.\<close>

datatype effect =
    SessionClose live_session
  | TrackStop nat
  | ContextClose audio_context
  | SourceStart source_node
  | SourceStop source_node
  | GenerateContent jsstring
  | ConsoleError string
  | SendToolResponse jsstring jsstring jsstring

subsection \<open>\<^verbatim>\<open>cleanupSession\<close>\<close>

text \<open>
  Lines 77 to 101. Every call that can throw is inside \<^verbatim>\<open>try { } catch (e) {}\<close> or has
  \<^verbatim>\<open>.catch(() => {})\<close> on its promise, and \<^verbatim>\<open>track.stop()\<close> does not throw, so the
  function has no failing branch.
\<close>

definition cleanupSession :: "app_state \<Rightarrow> app_state \<times> effect list" where
  "cleanupSession s =
     (s\<lparr>sessionRef := None, streamRef := None,
        audioContextInRef := None, audioContextOutRef := None,
        sourcesRef := [], nextStartTimeRef := 0,
        isActive := False, isConnecting := False\<rparr>,
      (case sessionRef s of Some c \<Rightarrow> [SessionClose c] | None \<Rightarrow> [])
      @ (case streamRef s of Some tracks \<Rightarrow> map TrackStop tracks | None \<Rightarrow> [])
      @ (case audioContextInRef s of Some c \<Rightarrow> [ContextClose c] | None \<Rightarrow> [])
      @ (case audioContextOutRef s of Some c \<Rightarrow> [ContextClose c] | None \<Rightarrow> [])
      @ map SourceStop (sourcesRef s))"

subsection \<open>Inbound messages\<close>

text \<open>
  A \<^verbatim>\<open>LiveServerMessage\<close>, with the fields the handler reads. A function call carries
  \<^verbatim>\<open>args.prompt\<close>, which the tool declaration (line 57) makes \<^verbatim>\<open>required\<close>.
  \<^verbatim>\<open>modelTurn\<close> is \<^verbatim>\<open>modelTurn?.parts\<close>: absent when either is.
\<close>

record function_call =
  fc_id :: jsstring
  fc_name :: jsstring
  fc_prompt :: jsstring

record inline_data =
  data :: "jsstring option"

record part =
  inlineData :: "inline_data option"

record transcription =
  transcription_text :: "jsstring option"

record server_content =
  inputTranscription :: "transcription option"
  outputTranscription :: "transcription option"
  turnComplete :: bool
  modelTurn :: "part list option"
  interrupted :: bool

record message =
  toolCall :: "function_call list option"
  serverContent :: "server_content option"

subsection \<open>What the collaborators answer\<close>

text \<open>
  \<^item> \<open>currentTime\<close>: the value of \<^verbatim>\<open>outCtx.currentTime\<close> when the handler reads it.
  \<^item> \<open>decodeAudioData\<close>: \<^verbatim>\<open>decodeAudioData(decode(audioData), outCtx, 24000, 1)\<close> of
    \<^verbatim>\<open>utils/audio-helpers\<close> as a function of the payload: the duration of the decoded
    buffer, or \<open>None\<close> when \<^verbatim>\<open>decode\<close> or \<^verbatim>\<open>decodeAudioData\<close> throws.
  \<^item> \<open>generateContent\<close>: the image service as a function of the prompt: the list
    \<^verbatim>\<open>response.candidates[0].content.parts\<close>, or \<open>None\<close> when the call rejects or that
    path of the response cannot be read (both throw inside the same \<^verbatim>\<open>try\<close>).
\<close>

record env =
  currentTime :: real
  decodeAudioData :: "jsstring \<Rightarrow> real option"
  generateContent :: "jsstring \<Rightarrow> part list option"

subsection \<open>\<^verbatim>\<open>handleGenerateImage\<close>\<close>

text \<open>Lines 112 to 117: the loop over the parts, left at the first part with inline data.\<close>

fun store_first_image :: "part list \<Rightarrow> app_state \<Rightarrow> app_state" where
  "store_first_image [] s = s"
| "store_first_image (p # ps) s =
     (case inlineData p of
        Some d \<Rightarrow> s\<lparr>generatedImage := Some (ascii ''data:image/png;base64,'' @ to_string (data d))\<rparr>
      | None \<Rightarrow> store_first_image ps s)"

text \<open>
  Lines 103 to 124. The result is the returned string, the state and the effects. The
  function calls the image service and then awaits its answer. A continuation that the
  caller has queued on a promise already resolved runs at that \<^verbatim>\<open>await\<close>: \<open>queued\<close> is
  the list of the calls such continuations make, and they come after the call of the
  service and before anything that follows its answer.
\<close>

definition handleGenerateImage ::
  "(jsstring \<Rightarrow> part list option) \<Rightarrow> jsstring \<Rightarrow> effect list \<Rightarrow> app_state
     \<Rightarrow> jsstring \<times> app_state \<times> effect list"
where
  "handleGenerateImage gen prompt queued s =
     (let s1 = s\<lparr>isGeneratingImage := True\<rparr>;
          (s2, effs) =
            (case gen prompt of
               Some parts \<Rightarrow> (store_first_image parts s1, [])
             | None \<Rightarrow> (s1, [ConsoleError ''Image generation failed'']))
      in (confirmation, s2\<lparr>isGeneratingImage := False\<rparr>,
          GenerateContent prompt # queued @ effs))"

subsection \<open>\<^verbatim>\<open>onmessage\<close>\<close>

text \<open>
  Lines 191 to 202: the loop over \<^verbatim>\<open>message.toolCall.functionCalls\<close>. The response
  to a call is not sent in the loop: \<^verbatim>\<open>sessionPromise.then\<close> queues the sending on the
  session promise, which has resolved by the time a message arrives, so the response is
  sent when the handler next awaits or ends. The loop takes the sendings queued so far
  and returns, with the state and the effects, the sendings still queued at its end.
\<close>

fun handle_function_calls ::
  "(jsstring \<Rightarrow> part list option) \<Rightarrow> function_call list \<Rightarrow> effect list \<Rightarrow> app_state
     \<Rightarrow> app_state \<times> effect list \<times> effect list"
where
  "handle_function_calls gen [] queued s = (s, [], queued)"
| "handle_function_calls gen (fc # fcs) queued s =
     (if fc_name fc = ascii ''generateImage'' then
        (let (result, s1, e1) = handleGenerateImage gen (fc_prompt fc) queued s;
             (s2, e2, q2) =
               handle_function_calls gen fcs
                 [SendToolResponse (fc_id fc) (fc_name fc) result] s1
         in (s2, e1 @ e2, q2))
      else handle_function_calls gen fcs queued s)"

text \<open>Lines 205 to 210: the fragments are appended to the buffers.\<close>

definition handle_transcription :: "server_content \<Rightarrow> app_state \<Rightarrow> app_state" where
  "handle_transcription sc s =
     (let b = transcriptBufferRef s;
          b1 = (case inputTranscription sc of
                  Some t \<Rightarrow> b\<lparr>user := user b @ to_string (transcription_text t)\<rparr>
                | None \<Rightarrow> b);
          b2 = (case outputTranscription sc of
                  Some t \<Rightarrow> b1\<lparr>model := model b1 @ to_string (transcription_text t)\<rparr>
                | None \<Rightarrow> b1)
      in s\<lparr>transcriptBufferRef := b2\<rparr>)"

text \<open>
  Lines 215 to 219: the entries of a turn with trimmed texts \<open>u\<close> and \<open>m\<close> (a string is
  truthy when it is not empty), and the update \<^verbatim>\<open>setTranscripts\<close> applies to the list.
\<close>

definition turn_entries :: "jsstring \<Rightarrow> jsstring \<Rightarrow> entry list" where
  "turn_entries u m =
     (if u \<noteq> [] then [\<lparr>entry_type = User, entry_text = u\<rparr>] else [])
     @ (if m \<noteq> [] then [\<lparr>entry_type = Model, entry_text = m\<rparr>] else [])"

definition setTranscripts :: "entry list \<Rightarrow> entry list \<Rightarrow> entry list" where
  "setTranscripts new prev = take 30 (new @ prev)"

text \<open>Lines 211 to 222.\<close>

definition handle_turn_complete :: "app_state \<Rightarrow> app_state" where
  "handle_turn_complete s =
     (let u = trim (user (transcriptBufferRef s));
          m = trim (model (transcriptBufferRef s));
          s1 = (if u \<noteq> [] \<or> m \<noteq> []
                then s\<lparr>transcripts := setTranscripts (turn_entries u m) (transcripts s)\<rparr>
                else s)
      in s1\<lparr>transcriptBufferRef := \<lparr>user = [], model = []\<rparr>\<rparr>)"

text \<open>
  Line 225: \<^verbatim>\<open>parts?.find(p => p.inlineData)?.inlineData?.data\<close>.
\<close>

definition audio_data :: "server_content \<Rightarrow> jsstring option" where
  "audio_data sc =
     (case modelTurn sc of
        None \<Rightarrow> None
      | Some ps \<Rightarrow>
          (case find (\<lambda>p. inlineData p \<noteq> None) ps of
             None \<Rightarrow> None
           | Some p \<Rightarrow> (case inlineData p of None \<Rightarrow> None | Some d \<Rightarrow> data d)))"

text \<open>
  How an invocation of the \<^verbatim>\<open>async\<close> handler ends: it runs to its end, or an exception
  leaves it where it was thrown and the promise it returned is rejected.
\<close>

datatype outcome = Completed | Rejected

text \<open>
  Lines 227 to 240. The cursor is raised to the clock before the decoder is awaited, so
  that assignment stays when the decoder throws. The sendings still queued run when the
  decoder is awaited, or right after the exception has left the handler; without an
  output context nothing is awaited and they stay queued. The last component of the
  result is what is still queued.
\<close>

definition handle_audio ::
  "env \<Rightarrow> jsstring \<Rightarrow> effect list \<Rightarrow> app_state
     \<Rightarrow> app_state \<times> effect list \<times> outcome \<times> effect list"
where
  "handle_audio e audioData queued s =
     (case audioContextOutRef s of
        None \<Rightarrow> (s, [], Completed, queued)
      | Some outCtx \<Rightarrow>
          (let s1 = s\<lparr>nextStartTimeRef := max (nextStartTimeRef s) (currentTime e)\<rparr>
           in case decodeAudioData e audioData of
                None \<Rightarrow> (s1, queued, Rejected, [])
              | Some d \<Rightarrow>
                  (let source = \<lparr>start_time = nextStartTimeRef s1, duration = d\<rparr>
                   in (s1\<lparr>nextStartTimeRef := nextStartTimeRef s1 + d,
                          sourcesRef := sourcesRef s1 @ [source]\<rparr>,
                       queued @ [SourceStart source], Completed, []))))"

text \<open>Lines 243 to 247.\<close>

definition handle_interrupted :: "app_state \<Rightarrow> app_state \<times> effect list" where
  "handle_interrupted s =
     (s\<lparr>sourcesRef := [], nextStartTimeRef := 0\<rparr>, map SourceStop (sourcesRef s))"

text \<open>
  Lines 189 to 248, in the order of the source. The sendings still queued when the
  handler ends are made then.
\<close>

definition onmessage :: "env \<Rightarrow> message \<Rightarrow> app_state \<Rightarrow> app_state \<times> effect list \<times> outcome" where
  "onmessage e msg s =
     (let (s1, e1, q1) =
            (case toolCall msg of
               Some fcs \<Rightarrow> handle_function_calls (generateContent e) fcs [] s
             | None \<Rightarrow> (s, [], []))
      in case serverContent msg of
           None \<Rightarrow> (s1, e1 @ q1, Completed)
         | Some sc \<Rightarrow>
             (let s2 = handle_transcription sc s1;
                  s3 = (if turnComplete sc then handle_turn_complete s2 else s2);
                  (s4, e4, r, q4) =
                    (case audio_data sc of
                       Some a \<Rightarrow>
                         if a \<noteq> [] then handle_audio e a q1 s3 else (s3, [], Completed, q1)
                     | None \<Rightarrow> (s3, [], Completed, q1))
              in case r of
                   Rejected \<Rightarrow> (s4, e1 @ e4 @ q4, Rejected)
                 | Completed \<Rightarrow>
                     if interrupted sc
                     then (let (s5, e5) = handle_interrupted s4
                           in (s5, e1 @ e4 @ e5 @ q4, Completed))
                     else (s4, e1 @ e4 @ q4, Completed)))"

subsection \<open>\<^verbatim>\<open>startSession\<close>\<close>

text \<open>
  What the collaborators of \<^verbatim>\<open>startSession\<close> answer, up to the first failure:
  \<^item> \<open>MicDenied\<close>: \<^verbatim>\<open>getUserMedia\<close> rejects (line 143);
  \<^item> \<open>ContextFailed\<close>: the stream is granted, then creating or resuming an audio
    context throws (lines 147 to 151);
  \<^item> \<open>ConnectFailed\<close>: stream and contexts are there, then \<^verbatim>\<open>ai.live.connect\<close> rejects
    (lines 156 and 260);
  \<^item> \<open>Connected\<close>: the channel opens, \<^verbatim>\<open>onopen\<close> runs and the promise resolves.
\<close>

datatype start_env =
    MicDenied
  | ContextFailed media_stream
  | ConnectFailed media_stream audio_context audio_context
  | Connected media_stream audio_context audio_context live_session

text \<open>Lines 262 to 266: the \<^verbatim>\<open>catch\<close> block.\<close>

definition start_failed :: "app_state \<Rightarrow> app_state \<times> effect list" where
  "start_failed s =
     (s\<lparr>error := Some start_error_message, isConnecting := False\<rparr>,
      [ConsoleError ''Failed to start session:''])"

text \<open>Lines 136 to 267.\<close>

definition startSession :: "start_env \<Rightarrow> app_state \<Rightarrow> app_state \<times> effect list" where
  "startSession a s =
     (let s0 = s\<lparr>isConnecting := True, error := None\<rparr>
      in case a of
           MicDenied \<Rightarrow> start_failed s0
         | ContextFailed stream \<Rightarrow> start_failed (s0\<lparr>streamRef := Some stream\<rparr>)
         | ConnectFailed stream inputCtx outputCtx \<Rightarrow>
             start_failed (s0\<lparr>streamRef := Some stream,
                               audioContextInRef := Some inputCtx,
                               audioContextOutRef := Some outputCtx\<rparr>)
         | Connected stream inputCtx outputCtx session \<Rightarrow>
             (s0\<lparr>streamRef := Some stream,
                 audioContextInRef := Some inputCtx,
                 audioContextOutRef := Some outputCtx,
                 isConnecting := False, isActive := True,
                 sessionRef := Some session\<rparr>, []))"

subsection \<open>Events\<close>

text \<open>
  The events the component reacts to: a click on the start/stop button (lines 324 and
  325: disabled while connecting, \<^verbatim>\<open>cleanupSession\<close> when active, \<^verbatim>\<open>startSession\<close>
  otherwise), the channel callbacks (lines 189, 249, 254), the \<^verbatim>\<open>ended\<close> event of the
  source at a position of the set (line 234; deleting a node that is no longer in the
  set changes nothing), and the button that dismisses the image (line 374).
\<close>

datatype event =
    Click start_env
  | OnMessage env message
  | OnError
  | OnClose
  | SourceEnded nat
  | Dismiss

fun step :: "event \<Rightarrow> app_state \<Rightarrow> app_state \<times> effect list" where
  "step (Click a) s =
     (if isConnecting s then (s, [])
      else if isActive s then cleanupSession s
      else startSession a s)"
| "step (OnMessage e msg) s = (let (s1, effs, r) = onmessage e msg s in (s1, effs))"
| "step OnError s =
     (let (s1, effs) = cleanupSession (s\<lparr>error := Some session_error_message\<rparr>)
      in (s1, ConsoleError ''Session Error:'' # effs))"
| "step OnClose s = cleanupSession s"
| "step (SourceEnded i) s =
     (s\<lparr>sourcesRef := take i (sourcesRef s) @ drop (Suc i) (sourcesRef s)\<rparr>, [])"
| "step Dismiss s = (s\<lparr>generatedImage := None\<rparr>, [])"

fun run :: "event list \<Rightarrow> app_state \<Rightarrow> app_state \<times> effect list" where
  "run [] s = (s, [])"
| "run (ev # evs) s =
     (let (s1, e1) = step ev s; (s2, e2) = run evs s1 in (s2, e1 @ e2))"

text \<open>Messages delivered one after the other, each with what the collaborators answer.\<close>

definition deliver :: "(env \<times> message) list \<Rightarrow> app_state \<Rightarrow> app_state \<times> effect list" where
  "deliver ems s = run (map (\<lambda>(e, msg). OnMessage e msg) ems) s"

subsection \<open>Reading messages and effects\<close>

text \<open>The source nodes started by a list of effects, in order.\<close>

fun started :: "effect list \<Rightarrow> source_node list" where
  "started [] = []"
| "started (SourceStart n # effs) = n # started effs"
| "started (_ # effs) = started effs"

text \<open>
  The duration of the audio chunk a message carries: defined when the message has a
  non-empty payload (line 226) that the decoder accepts.
\<close>

definition chunk_duration :: "env \<Rightarrow> message \<Rightarrow> real option" where
  "chunk_duration e msg =
     (case serverContent msg of
        None \<Rightarrow> None
      | Some sc \<Rightarrow>
          (case audio_data sc of
             None \<Rightarrow> None
           | Some a \<Rightarrow> if a \<noteq> [] then decodeAudioData e a else None))"

text \<open>Whether a message carries the interruption signal (line 243).\<close>

definition is_interrupted :: "message \<Rightarrow> bool" where
  "is_interrupted msg = (case serverContent msg of None \<Rightarrow> False | Some sc \<Rightarrow> interrupted sc)"

text \<open>Messages that carry one thing only.\<close>

definition no_content :: server_content where
  "no_content =
     \<lparr>inputTranscription = None, outputTranscription = None, turnComplete = False,
      modelTurn = None, interrupted = False\<rparr>"

definition fragment :: "role \<Rightarrow> jsstring \<Rightarrow> message" where
  "fragment r t =
     \<lparr>toolCall = None,
      serverContent = Some
        (case r of
           User \<Rightarrow> no_content\<lparr>inputTranscription := Some \<lparr>transcription_text = Some t\<rparr>\<rparr>
         | Model \<Rightarrow> no_content\<lparr>outputTranscription := Some \<lparr>transcription_text = Some t\<rparr>\<rparr>)\<rparr>"

definition turn_complete :: message where
  "turn_complete = \<lparr>toolCall = None, serverContent = Some (no_content\<lparr>turnComplete := True\<rparr>)\<rparr>"

definition interruption :: message where
  "interruption = \<lparr>toolCall = None, serverContent = Some (no_content\<lparr>interrupted := True\<rparr>)\<rparr>"

definition audio_chunk :: "jsstring \<Rightarrow> message" where
  "audio_chunk a =
     \<lparr>toolCall = None,
      serverContent = Some
        (no_content\<lparr>modelTurn := Some [\<lparr>inlineData = Some \<lparr>data = Some a\<rparr>\<rparr>]\<rparr>)\<rparr>"

definition tool_call :: "function_call list \<Rightarrow> message" where
  "tool_call fcs = \<lparr>toolCall = Some fcs, serverContent = None\<rparr>"

text \<open>The concatenation of the fragments of one role, in the order of the list.\<close>

definition fragments_text :: "role \<Rightarrow> (role \<times> jsstring) list \<Rightarrow> jsstring" where
  "fragments_text r frs = concat (map snd (filter (\<lambda>f. fst f = r) frs))"

text \<open>
  Collaborators for examples: the clock reads \<open>now\<close>, every payload decodes to a
  buffer of duration \<open>d\<close> (or none does), the image service fails.
\<close>

definition clock_env :: "real \<Rightarrow> real option \<Rightarrow> env" where
  "clock_env now d =
     \<lparr>currentTime = now, decodeAudioData = (\<lambda>a. d), generateContent = (\<lambda>p. None)\<rparr>"

definition image_env :: "part list option \<Rightarrow> env" where
  "image_env r =
     \<lparr>currentTime = 0, decodeAudioData = (\<lambda>a. None), generateContent = (\<lambda>p. r)\<rparr>"

text \<open>A session whose output context is open and nothing else.\<close>

definition playing_state :: app_state where
  "playing_state = initial_state\<lparr>audioContextOutRef := Some 1\<rparr>"

text \<open>One turn: a fragment, then the completion signal.\<close>

definition turn :: "env \<Rightarrow> role \<times> jsstring \<Rightarrow> (env \<times> message) list" where
  "turn e f = [(e, fragment (fst f) (snd f)), (e, turn_complete)]"

text \<open>Inputs for examples.\<close>

definition cat_call :: function_call where
  "cat_call =
     \<lparr>fc_id = ascii ''call-1'', fc_name = ascii ''generateImage'', fc_prompt = ascii ''a cat''\<rparr>"

definition dog_call :: function_call where
  "dog_call =
     \<lparr>fc_id = ascii ''call-3'', fc_name = ascii ''generateImage'', fc_prompt = ascii ''a dog''\<rparr>"

definition other_call :: function_call where
  "other_call =
     \<lparr>fc_id = ascii ''call-2'', fc_name = ascii ''getWeather'', fc_prompt = ascii ''Dhaka''\<rparr>"

definition cat_parts :: "part list" where
  "cat_parts =
     [\<lparr>inlineData = None\<rparr>,
      \<lparr>inlineData = Some \<lparr>data = Some (ascii ''QUJD'')\<rparr>\<rparr>,
      \<lparr>inlineData = Some \<lparr>data = Some (ascii ''WFla'')\<rparr>\<rparr>]"

definition numbered_turns :: "(role \<times> jsstring) list" where
  "numbered_turns = map (\<lambda>n. (User, [0x41 + of_nat n])) [0..<35]"

text \<open>
  A session that is playing one source of five seconds, and a message whose audio
  payload the decoder rejects and which also carries the interruption signal.
\<close>

definition busy_state :: app_state where
  "busy_state =
     playing_state\<lparr>sourcesRef := [\<lparr>start_time = 0, duration = 5\<rparr>], nextStartTimeRef := 5\<rparr>"

definition corrupt_interrupting :: message where
  "corrupt_interrupting =
     \<lparr>toolCall = None,
      serverContent = Some
        (no_content\<lparr>modelTurn := Some [\<lparr>inlineData = Some \<lparr>data = Some (ascii ''%%%'')\<rparr>\<rparr>],
                    interrupted := True\<rparr>)\<rparr>"

section \<open>Auxiliary facts\<close>

lemmas example_defs =
  deliver_def onmessage_def handle_audio_def audio_data_def audio_chunk_def
  clock_env_def image_env_def playing_state_def busy_state_def initial_state_def
  no_content_def Let_def handle_transcription_def handle_turn_complete_def
  handle_interrupted_def handleGenerateImage_def turn_entries_def setTranscripts_def
  fragment_def turn_complete_def interruption_def tool_call_def corrupt_interrupting_def
  chunk_duration_def is_interrupted_def to_string_def cat_call_def dog_call_def
  other_call_def
  cat_parts_def ascii_def

lemma trim_Nil: "trim [] = []"
  by (simp add: trim_def)

subsection \<open>What the tool dispatcher leaves alone\<close>

lemma store_first_image_found:
  "\<forall>q\<in>set pre. inlineData q = None \<Longrightarrow> inlineData p = Some d \<Longrightarrow>
   store_first_image (pre @ p # rest) s =
     s\<lparr>generatedImage := Some (ascii ''data:image/png;base64,'' @ to_string (data d))\<rparr>"
  by (induction pre) simp_all

lemma store_first_image_frame:
  "nextStartTimeRef (store_first_image ps s) = nextStartTimeRef s
   \<and> sourcesRef (store_first_image ps s) = sourcesRef s
   \<and> audioContextOutRef (store_first_image ps s) = audioContextOutRef s
   \<and> transcripts (store_first_image ps s) = transcripts s
   \<and> transcriptBufferRef (store_first_image ps s) = transcriptBufferRef s"
  by (induction ps) (simp_all split: option.splits)

lemma started_append: "started (xs @ ys) = started xs @ started ys"
  by (induction xs rule: started.induct) simp_all

lemma handleGenerateImage_frame:
  "nextStartTimeRef (fst (snd (handleGenerateImage gen p q s))) = nextStartTimeRef s
   \<and> sourcesRef (fst (snd (handleGenerateImage gen p q s))) = sourcesRef s
   \<and> audioContextOutRef (fst (snd (handleGenerateImage gen p q s))) = audioContextOutRef s
   \<and> transcripts (fst (snd (handleGenerateImage gen p q s))) = transcripts s
   \<and> transcriptBufferRef (fst (snd (handleGenerateImage gen p q s))) = transcriptBufferRef s
   \<and> started (snd (snd (handleGenerateImage gen p q s))) = started q"
  by (simp add: handleGenerateImage_def Let_def store_first_image_frame started_append
        split: option.splits)

lemma started_map_SourceStop: "started (map SourceStop ns) = []"
  by (induction ns) simp_all

lemma handle_function_calls_frame:
  "nextStartTimeRef (fst (handle_function_calls gen fcs q s)) = nextStartTimeRef s
   \<and> sourcesRef (fst (handle_function_calls gen fcs q s)) = sourcesRef s
   \<and> audioContextOutRef (fst (handle_function_calls gen fcs q s)) = audioContextOutRef s
   \<and> transcripts (fst (handle_function_calls gen fcs q s)) = transcripts s
   \<and> transcriptBufferRef (fst (handle_function_calls gen fcs q s)) = transcriptBufferRef s
   \<and> started (fst (snd (handle_function_calls gen fcs q s)))
       @ started (snd (snd (handle_function_calls gen fcs q s))) = started q"
proof (induction fcs arbitrary: q s)
  case Nil
  show ?case by simp
next
  case (Cons fc fcs)
  obtain r s1 e1 where h: "handleGenerateImage gen (fc_prompt fc) q s = (r, s1, e1)"
    by (cases "handleGenerateImage gen (fc_prompt fc) q s") auto
  from handleGenerateImage_frame [of gen "fc_prompt fc" q s] h
  have f: "nextStartTimeRef s1 = nextStartTimeRef s" "sourcesRef s1 = sourcesRef s"
    "audioContextOutRef s1 = audioContextOutRef s" "transcripts s1 = transcripts s"
    "transcriptBufferRef s1 = transcriptBufferRef s" "started e1 = started q"
    by simp_all
  show ?case
  proof (cases "fc_name fc = ascii ''generateImage''")
    case True
    then show ?thesis
      using Cons.IH [of "[SendToolResponse (fc_id fc) (fc_name fc) r]" s1] h f
      by (simp add: started_append split_beta)
  next
    case False
    then show ?thesis
      using Cons.IH [of q s] by simp
  qed
qed

text \<open>The loop of a handler, which starts with nothing queued, starts no source.\<close>

lemma handle_function_calls_started:
  "started (fst (snd (handle_function_calls gen fcs [] s))) = []"
  "started (snd (snd (handle_function_calls gen fcs [] s))) = []"
  using handle_function_calls_frame [of gen fcs "[]" s] by simp_all

lemma handle_function_calls_unrecognised:
  "\<forall>fc\<in>set fcs. fc_name fc \<noteq> ascii ''generateImage'' \<Longrightarrow>
   handle_function_calls gen fcs q s = (s, [], q)"
  by (induction fcs) simp_all

lemma handle_function_calls_filter:
  "handle_function_calls gen (filter (\<lambda>fc. fc_name fc = ascii ''generateImage'') fcs) q s =
   handle_function_calls gen fcs q s"
  by (induction fcs arbitrary: q s) (simp_all add: split_beta)

lemma handle_transcription_frame:
  "nextStartTimeRef (handle_transcription sc s) = nextStartTimeRef s
   \<and> sourcesRef (handle_transcription sc s) = sourcesRef s
   \<and> audioContextOutRef (handle_transcription sc s) = audioContextOutRef s
   \<and> transcripts (handle_transcription sc s) = transcripts s"
  by (simp add: handle_transcription_def Let_def)

lemma handle_turn_complete_frame:
  "nextStartTimeRef (handle_turn_complete s) = nextStartTimeRef s
   \<and> sourcesRef (handle_turn_complete s) = sourcesRef s
   \<and> audioContextOutRef (handle_turn_complete s) = audioContextOutRef s"
  by (simp add: handle_turn_complete_def Let_def)

subsection \<open>One message\<close>

text \<open>A chunk that decodes: what is started, whatever else the message carries.\<close>

lemma onmessage_chunk_started:
  assumes "chunk_duration e msg = Some d" and "audioContextOutRef s \<noteq> None"
  shows "started (fst (snd (onmessage e msg s))) =
           [\<lparr>start_time = max (nextStartTimeRef s) (currentTime e), duration = d\<rparr>]"
    and "audioContextOutRef (fst (onmessage e msg s)) = audioContextOutRef s"
    and "snd (snd (onmessage e msg s)) = Completed"
  using assms
  by (auto simp: onmessage_def chunk_duration_def handle_audio_def handle_interrupted_def
      Let_def handle_function_calls_frame handle_function_calls_started
      handle_transcription_frame handle_turn_complete_frame started_append
      started_map_SourceStop split_beta
      split: option.splits if_splits outcome.splits)

text \<open>The same chunk in a message without the interruption signal: the scheduler after it.\<close>

lemma onmessage_chunk:
  assumes "chunk_duration e msg = Some d" and "\<not> is_interrupted msg"
    and "audioContextOutRef s \<noteq> None"
  shows "nextStartTimeRef (fst (onmessage e msg s)) = max (nextStartTimeRef s) (currentTime e) + d"
    and "sourcesRef (fst (onmessage e msg s)) =
           sourcesRef s @ [\<lparr>start_time = max (nextStartTimeRef s) (currentTime e), duration = d\<rparr>]"
  using assms
  by (auto simp: onmessage_def chunk_duration_def is_interrupted_def handle_audio_def Let_def
      handle_function_calls_frame handle_transcription_frame handle_turn_complete_frame
      split_beta
      split: option.splits if_splits outcome.splits)

text \<open>A chunk that the decoder rejects: the handler is left at the decoder.\<close>

lemma onmessage_decode_failure:
  assumes "serverContent msg = Some sc" and "audio_data sc = Some a" and "a \<noteq> []"
    and "decodeAudioData e a = None" and "audioContextOutRef s \<noteq> None"
  shows "snd (snd (onmessage e msg s)) = Rejected"
    and "sourcesRef (fst (onmessage e msg s)) = sourcesRef s"
    and "nextStartTimeRef (fst (onmessage e msg s)) = max (nextStartTimeRef s) (currentTime e)"
    and "started (fst (snd (onmessage e msg s))) = []"
  using assms
  by (auto simp: onmessage_def handle_audio_def Let_def handle_function_calls_frame
      handle_function_calls_started handle_transcription_frame handle_turn_complete_frame
      started_append split_beta
      split: option.splits if_splits outcome.splits)

lemma onmessage_fragment:
  "onmessage e (fragment r t) s =
     (s\<lparr>transcriptBufferRef :=
          (case r of
             User \<Rightarrow> (transcriptBufferRef s)\<lparr>user := user (transcriptBufferRef s) @ t\<rparr>
           | Model \<Rightarrow> (transcriptBufferRef s)\<lparr>model := model (transcriptBufferRef s) @ t\<rparr>)\<rparr>,
      [], Completed)"
  by (cases r)
     (simp_all add: onmessage_def fragment_def no_content_def handle_transcription_def
        audio_data_def to_string_def Let_def)

lemma onmessage_turn_complete:
  "onmessage e turn_complete s = (handle_turn_complete s, [], Completed)"
  by (simp add: onmessage_def turn_complete_def no_content_def handle_transcription_def
        audio_data_def Let_def)

lemma onmessage_interruption:
  "onmessage e interruption s =
     (s\<lparr>sourcesRef := [], nextStartTimeRef := 0\<rparr>, map SourceStop (sourcesRef s), Completed)"
  by (simp add: onmessage_def interruption_def no_content_def handle_transcription_def
        handle_interrupted_def audio_data_def Let_def)

text \<open>A message that carries the interruption signal and is handled to the end.\<close>

lemma onmessage_interrupted_completed:
  assumes "is_interrupted msg" and "onmessage e msg s = (s', effs, Completed)"
  shows "sourcesRef s' = []" and "nextStartTimeRef s' = 0"
  using assms
  by (auto simp: onmessage_def is_interrupted_def handle_interrupted_def Let_def split_beta
      split: option.splits if_splits outcome.splits)

subsection \<open>A sequence of messages\<close>

lemma deliver_Nil: "deliver [] s = (s, [])"
  by (simp add: deliver_def)

lemma deliver_Cons:
  "deliver ((e, msg) # ems) s =
     (fst (deliver ems (fst (onmessage e msg s))),
      fst (snd (onmessage e msg s)) @ snd (deliver ems (fst (onmessage e msg s))))"
  by (simp add: deliver_def split_beta)

lemma deliver_append:
  "deliver (xs @ ys) s =
     (fst (deliver ys (fst (deliver xs s))),
      snd (deliver xs s) @ snd (deliver ys (fst (deliver xs s))))"
proof (induction xs arbitrary: s)
  case Nil
  show ?case by (simp add: deliver_Nil)
next
  case (Cons x xs)
  obtain e msg where x: "x = (e, msg)" by (cases x)
  show ?case unfolding x by (simp add: deliver_Cons Cons.IH)
qed

subsection \<open>Turns\<close>

lemma fragments_text_Cons:
  "fragments_text r' ((r, t) # frs) =
     (if r = r' then t @ fragments_text r' frs else fragments_text r' frs)"
  by (simp add: fragments_text_def)

lemma deliver_fragments:
  "map snd ems = map (\<lambda>(r, t). fragment r t) frs \<Longrightarrow>
   deliver ems s =
     (s\<lparr>transcriptBufferRef :=
          \<lparr>user = user (transcriptBufferRef s) @ fragments_text User frs,
           model = model (transcriptBufferRef s) @ fragments_text Model frs\<rparr>\<rparr>, [])"
proof (induction frs arbitrary: ems s)
  case Nil
  then show ?case by (simp add: deliver_Nil fragments_text_def)
next
  case (Cons f frs)
  obtain r t where f: "f = (r, t)" by (cases f)
  from Cons.prems obtain e rest where ems: "ems = (e, fragment r t) # rest"
    and rest: "map snd rest = map (\<lambda>(r, t). fragment r t) frs"
    using f by (cases ems) auto
  show ?case
    unfolding ems f
    by (cases r)
       (simp_all add: deliver_Cons onmessage_fragment Cons.IH [OF rest] fragments_text_Cons)
qed

lemma setTranscripts_twice:
  "setTranscripts xs (setTranscripts [x] ys) = setTranscripts (xs @ [x]) ys"
  unfolding setTranscripts_def
  by (induction xs arbitrary: ys) (auto simp: take_Cons split: nat.splits)

lemma deliver_turn:
  assumes "transcriptBufferRef s = \<lparr>user = [], model = []\<rparr>" and "trim (snd f) \<noteq> []"
  shows "fst (deliver (turn e f) s) =
           s\<lparr>transcripts :=
               setTranscripts [\<lparr>entry_type = fst f, entry_text = trim (snd f)\<rparr>] (transcripts s)\<rparr>"
  using assms
  by (cases "fst f")
     (simp_all add: turn_def deliver_Cons deliver_Nil onmessage_fragment
        onmessage_turn_complete handle_turn_complete_def Let_def turn_entries_def trim_Nil)

lemma deliver_turns:
  "transcriptBufferRef s = \<lparr>user = [], model = []\<rparr> \<Longrightarrow>
   \<forall>f\<in>set turns. trim (snd f) \<noteq> [] \<Longrightarrow>
   transcriptBufferRef (fst (deliver (concat (map (turn e) turns)) s)) = \<lparr>user = [], model = []\<rparr>
   \<and> transcripts (fst (deliver (concat (map (turn e) turns)) s)) =
       (if turns = [] then transcripts s
        else setTranscripts
               (rev (map (\<lambda>f. \<lparr>entry_type = fst f, entry_text = trim (snd f)\<rparr>) turns))
               (transcripts s))"
proof (induction turns arbitrary: s)
  case Nil
  then show ?case by (simp add: deliver_Nil)
next
  case (Cons f turns)
  let ?s1 = "s\<lparr>transcripts :=
                 setTranscripts [\<lparr>entry_type = fst f, entry_text = trim (snd f)\<rparr>] (transcripts s)\<rparr>"
  have 1: "fst (deliver (turn e f) s) = ?s1"
    using Cons.prems by (intro deliver_turn) simp_all
  have 2: "transcriptBufferRef ?s1 = \<lparr>user = [], model = []\<rparr>"
    using Cons.prems by simp
  have 3: "\<forall>f\<in>set turns. trim (snd f) \<noteq> []"
    using Cons.prems by simp
  show ?case
    using Cons.IH [OF 2 3] by (simp add: deliver_append 1 setTranscripts_twice)
qed

subsection \<open>The bound on the history\<close>

lemma onmessage_transcripts_bounded:
  "length (transcripts s) \<le> 30 \<Longrightarrow> length (transcripts (fst (onmessage e msg s))) \<le> 30"
  by (auto simp: onmessage_def handle_audio_def handle_interrupted_def Let_def split_beta
      handle_function_calls_frame handle_transcription_frame handle_turn_complete_def
      setTranscripts_def
      split: option.splits if_splits outcome.splits)

lemma step_transcripts_bounded:
  "length (transcripts s) \<le> 30 \<Longrightarrow> length (transcripts (fst (step ev s))) \<le> 30"
  by (cases ev)
     (simp_all add: onmessage_transcripts_bounded cleanupSession_def startSession_def
        start_failed_def Let_def split_beta split: start_env.splits)

lemma run_transcripts_bounded:
  "length (transcripts s) \<le> 30 \<Longrightarrow> length (transcripts (fst (run evs s))) \<le> 30"
  by (induction evs arbitrary: s) (simp_all add: split_beta step_transcripts_bounded)

subsection \<open>A sequence of chunks\<close>

lemma started_deliver_Cons:
  assumes "chunk_duration e msg = Some d" and "audioContextOutRef s \<noteq> None"
  shows "started (snd (deliver ((e, msg) # ems) s)) =
           \<lparr>start_time = max (nextStartTimeRef s) (currentTime e), duration = d\<rparr>
           # started (snd (deliver ems (fst (onmessage e msg s))))"
  using onmessage_chunk_started(1) [OF assms]
  by (simp add: deliver_Cons started_append)

lemma length_started_deliver:
  "audioContextOutRef s \<noteq> None \<Longrightarrow>
   \<forall>em\<in>set ems. chunk_duration (fst em) (snd em) \<noteq> None \<and> \<not> is_interrupted (snd em) \<Longrightarrow>
   length (started (snd (deliver ems s))) = length ems"
proof (induction ems arbitrary: s)
  case Nil
  show ?case by (simp add: deliver_Nil)
next
  case (Cons em ems)
  obtain e msg where em: "em = (e, msg)" by (cases em)
  from Cons.prems em obtain d where d: "chunk_duration e msg = Some d"
    by auto
  have ctx: "audioContextOutRef (fst (onmessage e msg s)) \<noteq> None"
    using onmessage_chunk_started(2) [OF d Cons.prems(1)] Cons.prems(1) by simp
  have "length (started (snd (deliver ems (fst (onmessage e msg s))))) = length ems"
    using Cons.IH [OF ctx] Cons.prems(2) by simp
  then show ?case
    using started_deliver_Cons [OF d Cons.prems(1)] em by simp
qed

lemma nth_started_deliver:
  "audioContextOutRef s \<noteq> None \<Longrightarrow>
   \<forall>em\<in>set ems. chunk_duration (fst em) (snd em) \<noteq> None \<and> \<not> is_interrupted (snd em) \<Longrightarrow>
   k < length ems \<Longrightarrow>
   chunk_duration (fst (ems ! k)) (snd (ems ! k)) =
     Some (duration (started (snd (deliver ems s)) ! k))
   \<and> currentTime (fst (ems ! k)) \<le> start_time (started (snd (deliver ems s)) ! k)"
proof (induction ems arbitrary: s k)
  case Nil
  then show ?case by simp
next
  case (Cons em ems)
  obtain e msg where em: "em = (e, msg)" by (cases em)
  from Cons.prems em obtain d where d: "chunk_duration e msg = Some d"
    by auto
  have ctx: "audioContextOutRef (fst (onmessage e msg s)) \<noteq> None"
    using onmessage_chunk_started(2) [OF d Cons.prems(1)] Cons.prems(1) by simp
  note unfold = started_deliver_Cons [OF d Cons.prems(1), of ems]
  show ?case
  proof (cases k)
    case 0
    then show ?thesis using unfold em d by simp
  next
    case (Suc j)
    with Cons.prems(3) have j: "j < length ems" by simp
    from Cons.IH [OF ctx _ j] Cons.prems(2)
    show ?thesis using unfold em Suc by simp
  qed
qed

lemma next_started_deliver:
  "audioContextOutRef s \<noteq> None \<Longrightarrow>
   \<forall>em\<in>set ems. chunk_duration (fst em) (snd em) \<noteq> None \<and> \<not> is_interrupted (snd em) \<Longrightarrow>
   Suc k < length ems \<Longrightarrow>
   start_time (started (snd (deliver ems s)) ! Suc k) =
     max (start_time (started (snd (deliver ems s)) ! k)
          + duration (started (snd (deliver ems s)) ! k))
         (currentTime (fst (ems ! Suc k)))"
proof (induction ems arbitrary: s k)
  case Nil
  then show ?case by simp
next
  case (Cons em ems)
  obtain e msg where em: "em = (e, msg)" by (cases em)
  from Cons.prems em obtain d where d: "chunk_duration e msg = Some d"
    and i: "\<not> is_interrupted msg"
    by auto
  let ?s1 = "fst (onmessage e msg s)"
  have ctx: "audioContextOutRef ?s1 \<noteq> None"
    using onmessage_chunk_started(2) [OF d Cons.prems(1)] Cons.prems(1) by simp
  have cur: "nextStartTimeRef ?s1 = max (nextStartTimeRef s) (currentTime e) + d"
    by (rule onmessage_chunk(1) [OF d i Cons.prems(1)])
  note unfold = started_deliver_Cons [OF d Cons.prems(1), of ems]
  show ?case
  proof (cases k)
    case 0
    with Cons.prems(3) obtain em2 rest where ems: "ems = em2 # rest"
      by (cases ems) auto
    obtain e2 msg2 where em2: "em2 = (e2, msg2)" by (cases em2)
    from Cons.prems(2) ems em2 obtain d2 where d2: "chunk_duration e2 msg2 = Some d2"
      by auto
    have "started (snd (deliver ems ?s1)) ! 0 =
            \<lparr>start_time = max (nextStartTimeRef ?s1) (currentTime e2), duration = d2\<rparr>"
      unfolding ems em2 using started_deliver_Cons [OF d2 ctx, of rest] by simp
    then show ?thesis using unfold em 0 cur ems em2 by simp
  next
    case (Suc j)
    with Cons.prems(3) have j: "Suc j < length ems" by simp
    from Cons.IH [OF ctx _ j] Cons.prems(2)
    show ?thesis using unfold em Suc by simp
  qed
qed

section \<open>Tool dispatch\<close>

text \<open>
  C8. A tool call message whose single function call is named \<^verbatim>\<open>generateImage\<close> makes
  the handler call the image service exactly once, with the prompt of the call. When the
  service answers with parts, the first part that has inline data becomes the generated
  image (as a PNG data URL), whatever image was there before and whatever parts follow.
  The handler sends exactly one tool response, carrying the id and the name of the call
  and the fixed confirmation string, and changes nothing else in the state.
\<close>

theorem tool_dispatch_success:
  assumes "toolCall msg = Some [fc]" and "serverContent msg = None"
    and "fc_name fc = ascii ''generateImage''"
    and "generateContent e (fc_prompt fc) = Some (pre @ p # rest)"
    and "\<forall>q\<in>set pre. inlineData q = None" and "inlineData p = Some d"
  shows "onmessage e msg s =
     (s\<lparr>generatedImage := Some (ascii ''data:image/png;base64,'' @ to_string (data d)),
        isGeneratingImage := False\<rparr>,
      [GenerateContent (fc_prompt fc),
       SendToolResponse (fc_id fc) (ascii ''generateImage'') confirmation],
      Completed)"
  using assms
  by (simp add: onmessage_def handleGenerateImage_def store_first_image_found)

theorem tool_dispatch_success_witness:
  "onmessage (image_env (Some cat_parts)) (tool_call [cat_call])
     (initial_state\<lparr>generatedImage := Some (ascii ''data:image/png;base64,T0xE'')\<rparr>) =
     (initial_state\<lparr>generatedImage := Some (ascii ''data:image/png;base64,QUJD'')\<rparr>,
      [GenerateContent (ascii ''a cat''),
       SendToolResponse (ascii ''call-1'') (ascii ''generateImage'') confirmation],
      Completed)"
proof -
  have 1: "toolCall (tool_call [cat_call]) = Some [cat_call]"
    and 2: "serverContent (tool_call [cat_call]) = None"
    and 3: "fc_name cat_call = ascii ''generateImage''"
    by (simp_all add: tool_call_def cat_call_def)
  have 4: "generateContent (image_env (Some cat_parts)) (fc_prompt cat_call) =
             Some ([\<lparr>inlineData = None\<rparr>]
                   @ \<lparr>inlineData = Some \<lparr>data = Some (ascii ''QUJD'')\<rparr>\<rparr>
                   # [\<lparr>inlineData = Some \<lparr>data = Some (ascii ''WFla'')\<rparr>\<rparr>])"
    by (simp add: image_env_def cat_parts_def)
  have 5: "\<forall>q\<in>set [\<lparr>inlineData = None\<rparr>]. inlineData q = None"
    and 6: "inlineData \<lparr>inlineData = Some \<lparr>data = Some (ascii ''QUJD'')\<rparr>\<rparr>
              = Some \<lparr>data = Some (ascii ''QUJD'')\<rparr>"
    by simp_all
  show ?thesis
    using tool_dispatch_success [OF 1 2 3 4 5 6]
    by (simp add: cat_call_def initial_state_def to_string_def ascii_def)
qed

text \<open>
  C5. When the image service fails during such a call, the handler logs the failure,
  still sends one tool response for the call, with the same confirmation string, and
  completes. The generated image, the session references, the playback state and the
  transcripts stay as they were: the state differs at most in the flag that says an
  image is being generated, which is off.
\<close>

theorem image_failure_still_replies:
  assumes "toolCall msg = Some [fc]" and "serverContent msg = None"
    and "fc_name fc = ascii ''generateImage''"
    and "generateContent e (fc_prompt fc) = None"
  shows "onmessage e msg s =
     (s\<lparr>isGeneratingImage := False\<rparr>,
      [GenerateContent (fc_prompt fc), ConsoleError ''Image generation failed'',
       SendToolResponse (fc_id fc) (ascii ''generateImage'') confirmation],
      Completed)"
  using assms
  by (simp add: onmessage_def handleGenerateImage_def)

theorem image_failure_still_replies_witness:
  "onmessage (image_env None) (tool_call [cat_call]) busy_state =
     (busy_state,
      [GenerateContent (ascii ''a cat''), ConsoleError ''Image generation failed'',
       SendToolResponse (ascii ''call-1'') (ascii ''generateImage'') confirmation],
      Completed)"
proof -
  have 1: "toolCall (tool_call [cat_call]) = Some [cat_call]"
    and 2: "serverContent (tool_call [cat_call]) = None"
    and 3: "fc_name cat_call = ascii ''generateImage''"
    and 4: "generateContent (image_env None) (fc_prompt cat_call) = None"
    by (simp_all add: tool_call_def cat_call_def image_env_def)
  show ?thesis
    using image_failure_still_replies [OF 1 2 3 4]
    by (simp add: cat_call_def busy_state_def playing_state_def initial_state_def)
qed

text \<open>
  C10. A tool call message none of whose function calls is named \<^verbatim>\<open>generateImage\<close>
  is handled as if it carried no tool call: when it carries nothing else, the handler
  calls no collaborator, sends no tool response and leaves the state as it was.
\<close>

theorem unrecognised_calls_ignored:
  assumes "toolCall msg = Some fcs"
    and "\<forall>fc\<in>set fcs. fc_name fc \<noteq> ascii ''generateImage''"
  shows "onmessage e msg s = onmessage e (msg\<lparr>toolCall := None\<rparr>) s
     \<and> (serverContent msg = None \<longrightarrow> onmessage e msg s = (s, [], Completed))"
  using assms
  by (simp add: onmessage_def handle_function_calls_unrecognised)

theorem unrecognised_calls_ignored_witness:
  "onmessage (image_env (Some cat_parts)) (tool_call [other_call]) busy_state =
     (busy_state, [], Completed)"
proof -
  have 1: "toolCall (tool_call [other_call]) = Some [other_call]"
    by (simp add: tool_call_def)
  have 2: "\<forall>fc\<in>set [other_call]. fc_name fc \<noteq> ascii ''generateImage''"
    by (simp add: other_call_def ascii_def)
  show ?thesis
    using unrecognised_calls_ignored [OF 1 2, of "image_env (Some cat_parts)" busy_state, THEN conjunct2]
    by (simp add: tool_call_def)
qed

text \<open>
  The order of the calls when a message carries two recognised function calls and the
  image service fails: the response to the first call is sent once the handler awaits
  the service for the second, the response to the second once the handler ends.
\<close>

lemma two_calls_order:
  "onmessage (image_env None) (tool_call [cat_call, dog_call]) initial_state =
     (initial_state,
      [GenerateContent (ascii ''a cat''), ConsoleError ''Image generation failed'',
       GenerateContent (ascii ''a dog''),
       SendToolResponse (ascii ''call-1'') (ascii ''generateImage'') confirmation,
       ConsoleError ''Image generation failed'',
       SendToolResponse (ascii ''call-3'') (ascii ''generateImage'') confirmation],
      Completed)"
  by (simp add: example_defs)

text \<open>
  A recognised call in a message that also carries the interruption signal: the sources
  are stopped before the response is sent, since nothing is awaited in between.
\<close>

lemma call_then_interruption_order:
  "onmessage (image_env None)
     \<lparr>toolCall = Some [cat_call], serverContent = Some (no_content\<lparr>interrupted := True\<rparr>)\<rparr>
     busy_state =
     (playing_state,
      [GenerateContent (ascii ''a cat''), ConsoleError ''Image generation failed'',
       SourceStop \<lparr>start_time = 0, duration = 5\<rparr>,
       SendToolResponse (ascii ''call-1'') (ascii ''generateImage'') confirmation],
      Completed)"
  by (simp add: example_defs)

section \<open>Transcripts\<close>

text \<open>
  C3. Starting with empty buffers, let any sequence of fragment messages be delivered,
  each carrying one fragment for one role, and then one turn completion signal. The
  entries put at the head of the transcripts are, in this order, one for the user and
  one for the model, each only if the trimmed concatenation of that role's fragments,
  taken in arrival order, is not empty, and that trimmed concatenation is the entry's
  text; when both are empty the transcripts are left as they were. Both buffers are
  empty afterwards in every case, and a second completion signal right after changes
  nothing: it yields no entry for either role.
\<close>

theorem transcript_turn_flush:
  assumes "transcriptBufferRef s = \<lparr>user = [], model = []\<rparr>"
    and "map snd ems = map (\<lambda>(r, t). fragment r t) frs"
    and "u = trim (fragments_text User frs)"
    and "m = trim (fragments_text Model frs)"
    and "s1 = fst (deliver ems s)"
    and "s2 = fst (onmessage e turn_complete s1)"
  shows "transcripts s2 =
           (if u = [] \<and> m = [] then transcripts s
            else take 30 ((if u \<noteq> [] then [\<lparr>entry_type = User, entry_text = u\<rparr>] else [])
                          @ (if m \<noteq> [] then [\<lparr>entry_type = Model, entry_text = m\<rparr>] else [])
                          @ transcripts s))
         \<and> transcriptBufferRef s2 = \<lparr>user = [], model = []\<rparr>
         \<and> onmessage e' turn_complete s2 = (s2, [], Completed)"
  using assms
  by (simp add: deliver_fragments onmessage_turn_complete handle_turn_complete_def Let_def
        turn_entries_def setTranscripts_def trim_Nil)

theorem transcript_turn_flush_witness:
  "transcripts (fst (onmessage (clock_env 0 None) turn_complete
      (fst (deliver [(clock_env 0 None, fragment User [0x986, 0x9AE, 0x9BF]),
                     (clock_env 0 None, fragment Model [0x20]),
                     (clock_env 0 None, fragment User [0x20, 0x9AD, 0x9BE, 0x9B2, 0x9CB])]
              initial_state)))) =
     [\<lparr>entry_type = User, entry_text = [0x986, 0x9AE, 0x9BF, 0x20, 0x9AD, 0x9BE, 0x9B2, 0x9CB]\<rparr>]"
proof -
  have 1: "transcriptBufferRef initial_state = \<lparr>user = [], model = []\<rparr>"
    by (simp add: initial_state_def)
  have 2: "map snd [(clock_env 0 None, fragment User [0x986, 0x9AE, 0x9BF]),
                    (clock_env 0 None, fragment Model [0x20]),
                    (clock_env 0 None, fragment User [0x20, 0x9AD, 0x9BE, 0x9B2, 0x9CB])] =
           map (\<lambda>(r, t). fragment r t)
             [(User, [0x986, 0x9AE, 0x9BF]), (Model, [0x20]),
              (User, [0x20, 0x9AD, 0x9BE, 0x9B2, 0x9CB])]"
    by simp
  have u: "trim (fragments_text User [(User, [0x986, 0x9AE, 0x9BF]), (Model, [0x20]),
              (User, [0x20, 0x9AD, 0x9BE, 0x9B2, 0x9CB])]) =
           [0x986, 0x9AE, 0x9BF, 0x20, 0x9AD, 0x9BE, 0x9B2, 0x9CB]"
    by (simp add: fragments_text_def trim_def is_white_space_def)
  have m: "trim (fragments_text Model [(User, [0x986, 0x9AE, 0x9BF]), (Model, [0x20]),
              (User, [0x20, 0x9AD, 0x9BE, 0x9B2, 0x9CB])]) = []"
    by (simp add: fragments_text_def trim_def is_white_space_def)
  show ?thesis
    using transcript_turn_flush [OF 1 2 refl refl refl refl, of "clock_env 0 None"]
    by (simp add: u m initial_state_def)
qed

text \<open>
  C4. From the initial state, whatever events occur, the transcripts never hold more
  than 30 entries. New entries go to the head: after 35 turns that each finalize one
  entry, delivered one after the other to a session whose buffers are empty, the
  transcripts are exactly the entries of the last 30 turns, newest first; the entries of
  the 5 oldest turns (and everything that was there before) are gone and the entry of
  the most recent turn is at the head.
\<close>

theorem bounded_history:
  assumes "transcriptBufferRef s = \<lparr>user = [], model = []\<rparr>"
    and "\<forall>f\<in>set turns. trim (snd f) \<noteq> []"
    and "length turns = 35"
    and "ts = transcripts (fst (deliver (concat (map (turn e) turns)) s))"
  shows "length (transcripts (fst (run evs initial_state))) \<le> 30
       \<and> ts = rev (map (\<lambda>f. \<lparr>entry_type = fst f, entry_text = trim (snd f)\<rparr>) (drop 5 turns))
       \<and> length ts = 30
       \<and> hd ts = \<lparr>entry_type = fst (last turns), entry_text = trim (snd (last turns))\<rparr>"
proof -
  let ?mk = "\<lambda>f. \<lparr>entry_type = fst f, entry_text = trim (snd f)\<rparr>"
  have "length (transcripts initial_state) \<le> 30"
    by (simp add: initial_state_def)
  then have bound: "length (transcripts (fst (run evs initial_state))) \<le> 30"
    by (rule run_transcripts_bounded)
  have ne: "turns \<noteq> []" "drop 5 turns \<noteq> []"
    using assms(3) by auto
  have "setTranscripts (rev (map ?mk turns)) (transcripts s) = rev (map ?mk (drop 5 turns))"
    using assms(3) by (simp add: setTranscripts_def take_rev drop_map)
  then have ts: "ts = rev (map ?mk (drop 5 turns))"
    using deliver_turns [OF assms(1,2), of e] ne assms(4) by simp
  have len: "length ts = 30"
    using ts assms(3) by simp
  have "hd ts = ?mk (last (drop 5 turns))"
    using ts ne by (simp add: hd_rev last_map)
  then have "hd ts = ?mk (last turns)"
    using assms(3) by simp
  with bound ts len show ?thesis by simp
qed

theorem bounded_history_witness:
  "length (transcripts (fst (deliver (concat (map (turn (clock_env 0 None)) numbered_turns))
             initial_state))) = 30
   \<and> hd (transcripts (fst (deliver (concat (map (turn (clock_env 0 None)) numbered_turns))
             initial_state))) = \<lparr>entry_type = User, entry_text = [0x63]\<rparr>"
proof -
  have 1: "transcriptBufferRef initial_state = \<lparr>user = [], model = []\<rparr>"
    by (simp add: initial_state_def)
  have 2: "\<forall>f\<in>set numbered_turns. trim (snd f) \<noteq> []"
    by code_simp
  have 3: "length numbered_turns = 35"
    by (simp add: numbered_turns_def)
  have l: "last numbered_turns = (User, [0x63])"
    by code_simp
  have t: "trim [0x63] = [0x63]"
    by (simp add: trim_def is_white_space_def)
  note th = bounded_history [OF 1 2 3 refl, where e = "clock_env 0 None" and evs = "[]"]
  from th have a: "length (transcripts (fst (deliver
      (concat (map (turn (clock_env 0 None)) numbered_turns)) initial_state))) = 30"
    by blast
  from th have b: "hd (transcripts (fst (deliver
      (concat (map (turn (clock_env 0 None)) numbered_turns)) initial_state))) =
      \<lparr>entry_type = fst (last numbered_turns), entry_text = trim (snd (last numbered_turns))\<rparr>"
    by blast
  show ?thesis
    using a b by (simp add: l t)
qed

section \<open>Playback scheduling\<close>

text \<open>
  C1, as the code has it. Let any sequence of messages be delivered to a session whose
  output context is open, each carrying an audio chunk that decodes and none carrying
  the interruption signal. Then one source is started per chunk, with the chunk's
  duration, and no source starts before the output clock's time at its enqueue. The
  first starts at the larger of the cursor and the clock. Each next one starts at the
  larger of the end of the one before (its start plus its duration) and the clock at its
  own enqueue: it follows the one before without a gap whenever the clock has not passed
  that end, and starts at the clock otherwise.
\<close>

theorem gapless_scheduling:
  assumes "audioContextOutRef s \<noteq> None"
    and "\<forall>em\<in>set ems. chunk_duration (fst em) (snd em) \<noteq> None \<and> \<not> is_interrupted (snd em)"
    and "hs = started (snd (deliver ems s))"
  shows "length hs = length ems
    \<and> (\<forall>k<length ems. chunk_duration (fst (ems ! k)) (snd (ems ! k)) = Some (duration (hs ! k)))
    \<and> (\<forall>k<length ems. currentTime (fst (ems ! k)) \<le> start_time (hs ! k))
    \<and> (ems \<noteq> [] \<longrightarrow>
          start_time (hs ! 0) = max (nextStartTimeRef s) (currentTime (fst (ems ! 0))))
    \<and> (\<forall>k. Suc k < length ems \<longrightarrow>
          start_time (hs ! Suc k) =
            max (start_time (hs ! k) + duration (hs ! k)) (currentTime (fst (ems ! Suc k))))
    \<and> (\<forall>k. Suc k < length ems
            \<and> currentTime (fst (ems ! Suc k)) \<le> start_time (hs ! k) + duration (hs ! k) \<longrightarrow>
          start_time (hs ! Suc k) = start_time (hs ! k) + duration (hs ! k))"
proof -
  have first: "ems \<noteq> [] \<longrightarrow>
          start_time (hs ! 0) = max (nextStartTimeRef s) (currentTime (fst (ems ! 0)))"
  proof
    assume "ems \<noteq> []"
    then obtain e msg rest where ems: "ems = (e, msg) # rest"
      by (cases ems) auto
    with assms(2) obtain d where d: "chunk_duration e msg = Some d"
      by auto
    show "start_time (hs ! 0) = max (nextStartTimeRef s) (currentTime (fst (ems ! 0)))"
      using started_deliver_Cons [OF d assms(1), of rest] assms(3) ems by simp
  qed
  have step: "\<forall>k. Suc k < length ems \<longrightarrow>
          start_time (hs ! Suc k) =
            max (start_time (hs ! k) + duration (hs ! k)) (currentTime (fst (ems ! Suc k)))"
    using next_started_deliver [OF assms(1,2)] assms(3) by simp
  then have gapless: "\<forall>k. Suc k < length ems
            \<and> currentTime (fst (ems ! Suc k)) \<le> start_time (hs ! k) + duration (hs ! k) \<longrightarrow>
          start_time (hs ! Suc k) = start_time (hs ! k) + duration (hs ! k)"
    by (simp add: max_def)
  have len: "length hs = length ems"
    using length_started_deliver [OF assms(1,2)] assms(3) by simp
  have nth: "\<forall>k<length ems.
      chunk_duration (fst (ems ! k)) (snd (ems ! k)) = Some (duration (hs ! k))
      \<and> currentTime (fst (ems ! k)) \<le> start_time (hs ! k)"
    using nth_started_deliver [OF assms(1,2)] assms(3) by simp
  from len nth first step gapless show ?thesis by simp
qed

theorem gapless_scheduling_witness:
  "started (snd (deliver [(clock_env 0 (Some (1/2)), audio_chunk (ascii ''AAAA'')),
                          (clock_env 0 (Some (3/10)), audio_chunk (ascii ''BBBB''))]
                   playing_state)) =
     [\<lparr>start_time = 0, duration = 1/2\<rparr>, \<lparr>start_time = 1/2, duration = 3/10\<rparr>]"
proof -
  let ?ems = "[(clock_env 0 (Some (1/2)), audio_chunk (ascii ''AAAA'')),
               (clock_env 0 (Some (3/10)), audio_chunk (ascii ''BBBB''))]"
  let ?hs = "started (snd (deliver ?ems playing_state))"
  have 1: "audioContextOutRef playing_state \<noteq> None"
    by (simp add: playing_state_def)
  have d: "chunk_duration (clock_env 0 (Some (1/2))) (audio_chunk (ascii ''AAAA'')) = Some (1/2)"
      "chunk_duration (clock_env 0 (Some (3/10))) (audio_chunk (ascii ''BBBB'')) = Some (3/10)"
    by (simp_all add: chunk_duration_def audio_chunk_def audio_data_def
          no_content_def clock_env_def ascii_def)
  have i: "\<not> is_interrupted (audio_chunk a)" for a
    by (simp add: is_interrupted_def audio_chunk_def no_content_def)
  have 2: "\<forall>em\<in>set ?ems. chunk_duration (fst em) (snd em) \<noteq> None \<and> \<not> is_interrupted (snd em)"
    by (simp add: d i del: not_None_eq)
  note th = gapless_scheduling [OF 1 2 refl]
  from th have len: "length ?hs = 2" by simp
  from th have "\<forall>k<length ?ems. chunk_duration (fst (?ems ! k)) (snd (?ems ! k)) = Some (duration (?hs ! k))"
    by blast
  note nth = this [rule_format]
  have d0: "duration (?hs ! 0) = 1/2"
    using nth [of 0] d by simp
  have d1: "duration (?hs ! 1) = 3/10"
    using nth [of 1] d by simp
  from th have "start_time (?hs ! 0) = max (nextStartTimeRef playing_state) (currentTime (fst (?ems ! 0)))"
    by simp
  then have s0: "start_time (?hs ! 0) = 0"
    by (simp add: playing_state_def initial_state_def clock_env_def)
  from th have "\<forall>k. Suc k < length ?ems \<longrightarrow>
          start_time (?hs ! Suc k) =
            max (start_time (?hs ! k) + duration (?hs ! k)) (currentTime (fst (?ems ! Suc k)))"
    by blast
  then have "start_time (?hs ! Suc 0) = max (start_time (?hs ! 0) + duration (?hs ! 0)) (currentTime (fst (?ems ! Suc 0)))"
    by simp
  then have s1: "start_time (?hs ! 1) = 1/2"
    using s0 d0 by (simp add: clock_env_def)
  obtain a b where hs: "?hs = [a, b]"
    using len by (cases ?hs; cases "tl ?hs") auto
  show ?thesis
    using s0 s1 d0 d1 unfolding hs by simp
qed

text \<open>
  Without that condition on the clock the next start need not be the end of the chunk
  before: a chunk of half a second enqueued at clock 0 ends at 0.5, and the chunk
  enqueued when the clock reads 2 starts at 2.
\<close>

theorem gapless_scheduling_counterexample:
  "start_time (started (snd (deliver
       [(clock_env 0 (Some (1/2)), audio_chunk (ascii ''AAAA'')),
        (clock_env 2 (Some (3/10)), audio_chunk (ascii ''BBBB''))] playing_state)) ! 1)
   \<noteq> start_time (started (snd (deliver
       [(clock_env 0 (Some (1/2)), audio_chunk (ascii ''AAAA'')),
        (clock_env 2 (Some (3/10)), audio_chunk (ascii ''BBBB''))] playing_state)) ! 0)
     + duration (started (snd (deliver
       [(clock_env 0 (Some (1/2)), audio_chunk (ascii ''AAAA'')),
        (clock_env 2 (Some (3/10)), audio_chunk (ascii ''BBBB''))] playing_state)) ! 0)"
  by (simp add: example_defs)

text \<open>
  The interruption signal, when the message that carries it is handled to its end. From
  any state, so after any number of enqueues, also none, the set of active sources is
  then empty and the cursor is 0; the signal alone stops every source of the set, and
  completes when the set is empty. A second signal right after changes nothing and
  stops nothing. A chunk enqueued next starts at the larger of 0 and the output clock,
  so at the clock itself, which is never negative: not earlier, and not at any cursor
  value accumulated before the interruption.
\<close>

lemma interruption_handled_to_its_end:
  assumes "is_interrupted msg" and "onmessage e msg s = (s', effs, Completed)"
  shows "sourcesRef s' = [] \<and> nextStartTimeRef s' = 0
    \<and> onmessage e1 interruption s =
        (s\<lparr>sourcesRef := [], nextStartTimeRef := 0\<rparr>, map SourceStop (sourcesRef s), Completed)
    \<and> onmessage e1 interruption s' = (s', [], Completed)
    \<and> (audioContextOutRef s' \<noteq> None \<and> chunk_duration e2 msg2 = Some d \<longrightarrow>
         started (fst (snd (onmessage e2 msg2 s'))) =
           [\<lparr>start_time = max 0 (currentTime e2), duration = d\<rparr>])
    \<and> (audioContextOutRef s' \<noteq> None \<and> chunk_duration e2 msg2 = Some d \<and> 0 \<le> currentTime e2 \<longrightarrow>
         started (fst (snd (onmessage e2 msg2 s'))) =
           [\<lparr>start_time = currentTime e2, duration = d\<rparr>])"
proof -
  have clear: "sourcesRef s' = []" "nextStartTimeRef s' = 0"
    using onmessage_interrupted_completed [OF assms] by simp_all
  then have same: "s'\<lparr>sourcesRef := [], nextStartTimeRef := 0\<rparr> = s'"
    by simp
  have again: "onmessage e1 interruption s' = (s', [], Completed)"
    using clear same by (simp add: onmessage_interruption)
  have enq: "started (fst (snd (onmessage e2 msg2 s'))) =
           [\<lparr>start_time = max 0 (currentTime e2), duration = d\<rparr>]"
    if "audioContextOutRef s' \<noteq> None" "chunk_duration e2 msg2 = Some d"
    using onmessage_chunk_started(1) [OF that(2,1)] clear by simp
  from clear again enq show ?thesis
    by (simp add: onmessage_interruption max_def)
qed

lemma interruption_example:
  "onmessage (clock_env 1 None) interruption busy_state =
     (playing_state, [SourceStop \<lparr>start_time = 0, duration = 5\<rparr>], Completed)
   \<and> onmessage (clock_env 1 None) interruption playing_state = (playing_state, [], Completed)
   \<and> started (fst (snd (onmessage (clock_env 2 (Some (3/10))) (audio_chunk (ascii ''AAAA''))
        playing_state))) = [\<lparr>start_time = 2, duration = 3/10\<rparr>]"
proof -
  have 0: "onmessage (clock_env 1 None) interruption busy_state =
     (playing_state, [SourceStop \<lparr>start_time = 0, duration = 5\<rparr>], Completed)"
    by (simp add: onmessage_interruption busy_state_def playing_state_def initial_state_def)
  have 1: "is_interrupted interruption"
    by (simp add: is_interrupted_def interruption_def no_content_def)
  have 2: "audioContextOutRef playing_state \<noteq> None"
    by (simp add: playing_state_def)
  have 3: "chunk_duration (clock_env 2 (Some (3/10))) (audio_chunk (ascii ''AAAA'')) = Some (3/10)"
    by (simp add: chunk_duration_def audio_chunk_def audio_data_def no_content_def
          clock_env_def ascii_def)
  have 4: "(0::real) \<le> currentTime (clock_env 2 (Some (3/10)))"
    by (simp add: clock_env_def)
  note th = interruption_handled_to_its_end [OF 1 0, where ?e1.0 = "clock_env 1 None"
      and ?e2.0 = "clock_env 2 (Some (3/10))" and ?msg2.0 = "audio_chunk (ascii ''AAAA'')"
      and d = "3/10"]
  from th have a: "onmessage (clock_env 1 None) interruption playing_state = (playing_state, [], Completed)"
    by blast
  from th 2 3 4 have b: "started (fst (snd (onmessage (clock_env 2 (Some (3/10)))
      (audio_chunk (ascii ''AAAA'')) playing_state))) =
      [\<lparr>start_time = currentTime (clock_env 2 (Some (3/10))), duration = 3/10\<rparr>]"
    by blast
  show ?thesis
    using 0 a b by (simp add: clock_env_def)
qed

text \<open>
  C2. The message that carries the interruption signal is not always handled to its
  end. One chunk of five seconds is enqueued at clock 0; then a message arrives that
  carries the interruption signal together with an audio payload the decoder rejects.
  After it the source is still in the set of active sources, it has not been stopped,
  and the cursor is still at 5: the exception of the decoder has left the handler
  before lines 243 to 247.
\<close>

theorem interruption_lost_with_corrupt_chunk:
  "is_interrupted corrupt_interrupting
   \<and> deliver [(clock_env 0 (Some 5), audio_chunk (ascii ''AAAA'')),
               (clock_env 1 None, corrupt_interrupting)] playing_state =
       (busy_state, [SourceStart \<lparr>start_time = 0, duration = 5\<rparr>])
   \<and> sourcesRef busy_state = [\<lparr>start_time = 0, duration = 5\<rparr>]
   \<and> nextStartTimeRef busy_state = 5"
  by (simp add: example_defs)

text \<open>
  C6. The decoder is awaited at line 230 outside any \<^verbatim>\<open>try\<close>. A session is playing one
  source and its cursor is at 5; a message arrives whose audio payload the decoder
  rejects and which also carries the interruption signal. The handler does not run to
  its end: the exception leaves it at the decoder, lines 243 to 247 are never reached,
  the source is still in the set and the cursor is still at 5.
\<close>

theorem decode_error_rejects_handler:
  "onmessage (clock_env 1 None) corrupt_interrupting busy_state = (busy_state, [], Rejected)
   \<and> sourcesRef busy_state = [\<lparr>start_time = 0, duration = 5\<rparr>]
   \<and> nextStartTimeRef busy_state = 5"
  by (simp add: example_defs)

section \<open>Session lifecycle\<close>

text \<open>
  C7. The microphone is granted, both audio contexts are created and then the channel
  fails to connect. The \<^verbatim>\<open>catch\<close> block logs, sets the error message and clears the
  connecting flag; the stream and both contexts are still referenced, and none of the
  calls that \<^verbatim>\<open>cleanupSession\<close> would make on them (stopping the track, closing the
  contexts) has been made. The same holds for the stream when a context cannot be
  created after the microphone was granted.
\<close>

theorem start_failure_keeps_resources:
  "startSession (ConnectFailed [7] 1 2) initial_state =
     (initial_state\<lparr>error := Some start_error_message, streamRef := Some [7],
        audioContextInRef := Some 1, audioContextOutRef := Some 2\<rparr>,
      [ConsoleError ''Failed to start session:''])
   \<and> snd (cleanupSession (fst (startSession (ConnectFailed [7] 1 2) initial_state))) =
       [TrackStop 7, ContextClose 1, ContextClose 2]
   \<and> startSession (ContextFailed [7]) initial_state =
       (initial_state\<lparr>error := Some start_error_message, streamRef := Some [7]\<rparr>,
        [ConsoleError ''Failed to start session:''])"
  by (simp add: startSession_def start_failed_def cleanupSession_def initial_state_def)

subsection \<open>Teardown\<close>

text \<open>
  C9. Calling \<^verbatim>\<open>cleanupSession\<close> a second time right after the first gives the state the
  first call gave and makes no call on any collaborator; the function has no failing
  branch, so no error is raised. In that state the channel reference, the capture
  stream and both audio contexts are released, no playback source is scheduled, the
  cursor is 0 and the session is neither active nor connecting. The first call closes
  the channel, stops every capture track, closes both contexts and stops every scheduled
  source that the state held.
\<close>

theorem cleanupSession_idempotent:
  "cleanupSession (fst (cleanupSession s)) = (fst (cleanupSession s), [])
   \<and> sessionRef (fst (cleanupSession s)) = None
   \<and> streamRef (fst (cleanupSession s)) = None
   \<and> audioContextInRef (fst (cleanupSession s)) = None
   \<and> audioContextOutRef (fst (cleanupSession s)) = None
   \<and> sourcesRef (fst (cleanupSession s)) = []
   \<and> nextStartTimeRef (fst (cleanupSession s)) = 0
   \<and> \<not> isActive (fst (cleanupSession s))
   \<and> \<not> isConnecting (fst (cleanupSession s))
   \<and> snd (cleanupSession s) =
       (case sessionRef s of Some c \<Rightarrow> [SessionClose c] | None \<Rightarrow> [])
       @ (case streamRef s of Some tracks \<Rightarrow> map TrackStop tracks | None \<Rightarrow> [])
       @ (case audioContextInRef s of Some c \<Rightarrow> [ContextClose c] | None \<Rightarrow> [])
       @ (case audioContextOutRef s of Some c \<Rightarrow> [ContextClose c] | None \<Rightarrow> [])
       @ map SourceStop (sourcesRef s)"
  by (simp add: cleanupSession_def)

end
